theory Spec2Isabelle
  imports Main "HOL-Library.Code_Target_Numeral"
begin

section \<open>The book tracker of src/App.js\<close>

text \<open>
  The component \<open>App\<close> keeps seven pieces of React state (\<open>books\<close>, \<open>title\<close>,
  \<open>author\<close>, \<open>year\<close>, \<open>description\<close>, \<open>editingId\<close>, \<open>loading\<close>) and talks to the
  outside through \<open>axios\<close> (HTTP requests), \<open>Alert.alert\<close> (dialogs) and
  \<open>console.error\<close>. The model is explicit state passing over a record of the seven
  state variables plus \<open>trace\<close>, the list of outside effects in program order. The
  answers of the outside (the server's response to a request, the button pressed in the
  confirmation dialog) are arguments of the handlers.
\<close>

subsection \<open>JavaScript strings and numbers\<close>

text \<open>
  A string is a list of code units; \<open>char\<close> covers the code units below 256. Of the
  characters that \<open>String.prototype.trim\<close> and \<open>parseInt\<close> strip (WhiteSpace and
  LineTerminator of ECMAScript), those below 256 are TAB, LF, VT, FF, CR, SPACE and
  NO-BREAK SPACE.
\<close>

definition is_ws :: "char \<Rightarrow> bool" where
  "is_ws c = ((of_char c :: nat) \<in> {9, 10, 11, 12, 13, 32, 160})"

definition trim :: "string \<Rightarrow> string" where
  "trim s = rev (dropWhile is_ws (rev (dropWhile is_ws s)))"

definition is_digit :: "char \<Rightarrow> bool" where
  "is_digit c = (c \<in> set ''0123456789'')"

definition digit_val :: "char \<Rightarrow> nat" where
  "digit_val c = of_char c - 48"

definition digits_value :: "string \<Rightarrow> nat" where
  "digits_value z = foldl (\<lambda>a c. 10 * a + digit_val c) 0 z"

text \<open>
  A Number, as far as this program meets one: \<open>NaN\<close>, the two infinities, or an
  integer. The sign of zero is not kept (\<open>-0\<close> is \<open>Num 0\<close>; JSON writes both as 0).
\<close>

datatype jsnum = NaN | Infinity | NegInfinity | Num int

fun bitlen :: "nat \<Rightarrow> nat" where
  "bitlen n = (if n = 0 then 0 else Suc (bitlen (n div 2)))"

declare bitlen.simps [simp del]

text \<open>
  The Number nearest to a natural number (round to nearest, ties to even, 53 bits of
  mantissa): exact below \<open>2^53\<close>, an infinity from \<open>2^1024 - 2^970\<close> on.
\<close>

definition round_double :: "nat \<Rightarrow> nat" where
  "round_double n =
     (if n < 2 ^ 53 then n
      else let k = bitlen n - 53;
               q = n div 2 ^ k;
               r = n mod 2 ^ k
           in (if 2 ^ k < 2 * r \<or> (2 * r = 2 ^ k \<and> odd q) then q + 1 else q) * 2 ^ k)"

definition to_Number :: "bool \<Rightarrow> nat \<Rightarrow> jsnum" where
  "to_Number neg n =
     (let v = round_double n
      in if 2 ^ 1024 \<le> v then (if neg then NegInfinity else Infinity)
         else Num (if neg then - int v else int v))"

text \<open>
  \<open>parseInt(s, 10)\<close>: skip leading white space, take an optional sign, then the longest
  run of decimal digits (\<open>digit_run\<close>); no digit gives \<open>NaN\<close>. What follows the
  digits is ignored.
\<close>

definition sign_stripped :: "string \<Rightarrow> string" where
  "sign_stripped S =
     (if S \<noteq> [] \<and> (hd S = CHR ''+'' \<or> hd S = CHR ''-'') then tl S else S)"

definition digit_run :: "string \<Rightarrow> string" where
  "digit_run s = takeWhile is_digit (sign_stripped (dropWhile is_ws s))"

definition parseInt10 :: "string \<Rightarrow> jsnum" where
  "parseInt10 s =
     (let S = dropWhile is_ws s;
          neg = (S \<noteq> [] \<and> hd S = CHR ''-'');
          Z = digit_run s
      in if Z = [] then NaN else to_Number neg (digits_value Z))"

text \<open>
  \<open>Number.prototype.toString\<close> of a Number with an integer value. An \<open>int\<close> that is
  no double stands for the Number nearest to it, which is what \<open>JSON.parse\<close> makes of
  an integer literal. The text is that of the shortest decimal numeral that reads back
  as the Number (of the number itself below \<open>2^53\<close>, where every integer is a Number):
  its digits below \<open>10^21\<close>, exponent notation from there on, \<open>Infinity\<close> beyond the
  doubles.
\<close>

fun dec :: "nat \<Rightarrow> string" where
  "dec n = (if n < 10 then [''0123456789'' ! n]
            else dec (n div 10) @ [''0123456789'' ! (n mod 10)])"

declare dec.simps [simp del]

text \<open>
  \<open>candidate x k\<close>: a numeral of \<open>k\<close> significant digits that reads back as the
  Number \<open>x\<close>, if there is one: the multiple of the right power of ten just below or
  just above \<open>x\<close>, the nearer of the two when both read back as \<open>x\<close>, the one with the
  even last digit on a tie.
\<close>

definition candidate :: "nat \<Rightarrow> nat \<Rightarrow> nat option" where
  "candidate x k =
     (let e = length (dec x) - k;
          lo = x div 10 ^ e * 10 ^ e;
          hi = lo + 10 ^ e;
          okl = (round_double lo = x);
          okh = (round_double hi = x)
      in if okl \<and> okh
         then Some (if x - lo < hi - x then lo
                    else if hi - x < x - lo then hi
                    else if even (x div 10 ^ e) then lo else hi)
         else if okl then Some lo
         else if okh then Some hi
         else None)"

text \<open>The first candidate, trying 1, 2, ... significant digits; 17 always suffice.\<close>

function shortest_from :: "nat \<Rightarrow> nat \<Rightarrow> nat" where
  "shortest_from x k =
     (if 17 < k then x
      else case candidate x k of
             Some v \<Rightarrow> v
           | None \<Rightarrow> shortest_from x (k + 1))"
  by pat_completeness auto
termination
  by (relation "measure (\<lambda>(x, k). 18 - k)") auto

declare shortest_from.simps [simp del]

definition exponent_form :: "nat \<Rightarrow> string" where
  "exponent_form v =
     (let ds = dec v;
          sig = rev (dropWhile (\<lambda>c. c = CHR ''0'') (rev ds))
      in (if length sig = 1 then sig else hd sig # CHR ''.'' # tl sig)
           @ ''e+'' @ dec (length ds - 1))"

definition num_text :: "nat \<Rightarrow> string" where
  "num_text m =
     (let x = round_double m
      in if 2 ^ 1024 \<le> x then ''Infinity''
         else let v = (if x < 2 ^ 53 then x else shortest_from x 1)
              in if v < 10 ^ 21 then dec v else exponent_form v)"

definition num_toString :: "int \<Rightarrow> string" where
  "num_toString n = (if n < 0 then CHR ''-'' # num_text (nat (- n)) else num_text (nat n))"

subsection \<open>Data\<close>

text \<open>
  A book's identifier is assigned by the server; the program only converts it to a
  string and tests its truthiness, so it is a Number or a String. A numeric id and a
  book's year are written as an \<open>int\<close>, read as the Number nearest to it.
\<close>

datatype ident = IdNum int | IdStr string

fun id_toString :: "ident \<Rightarrow> string" where
  "id_toString (IdNum n) = num_toString n"
| "id_toString (IdStr s) = s"

text \<open>Truthiness of \<open>editingId\<close>: \<open>null\<close>, \<open>0\<close> and \<open>''\<close> are falsy.\<close>

fun truthy_id :: "ident option \<Rightarrow> bool" where
  "truthy_id None = False"
| "truthy_id (Some (IdNum n)) = (n \<noteq> 0)"
| "truthy_id (Some (IdStr s)) = (s \<noteq> [])"

record book =
  book_id :: ident
  book_title :: string
  book_author :: string
  book_year :: "int option"
  book_description :: "string option"

text \<open>The object \<open>data\<close> sent as a request body; \<open>undefined\<close> is \<open>None\<close>.\<close>

record payload =
  data_title :: string
  data_author :: string
  data_year :: "jsnum option"
  data_description :: string

datatype http_method = GET | POST | PUT | DELETE

datatype event =
    Request http_method string "payload option"
  | Alert string string
  | Confirm string string "string list"
  | ConsoleError string string
  | SetLoading bool

text \<open>The outcome of an awaited request: the response data, or the error's message.\<close>

datatype 'a response = Resolved 'a | Rejected string

text \<open>The button pressed in the two-button dialog of \<open>handleDelete\<close>.\<close>

datatype button = Cancel | Delete

record app =
  books :: "book list"
  title :: string
  author :: string
  year :: string
  description :: string
  editingId :: "ident option"
  loading :: bool
  trace :: "event list"

definition API_URL :: string where
  "API_URL = ''http://192.168.0.100:8000''"

subsection \<open>Effects\<close>

definition alert :: "string \<Rightarrow> string \<Rightarrow> app \<Rightarrow> app" where
  "alert t m s = s\<lparr>trace := trace s @ [Alert t m]\<rparr>"

definition console_error :: "string \<Rightarrow> string \<Rightarrow> app \<Rightarrow> app" where
  "console_error l m s = s\<lparr>trace := trace s @ [ConsoleError l m]\<rparr>"

definition axios :: "http_method \<Rightarrow> string \<Rightarrow> payload option \<Rightarrow> app \<Rightarrow> app" where
  "axios m u d s = s\<lparr>trace := trace s @ [Request m u d]\<rparr>"

definition setLoading :: "bool \<Rightarrow> app \<Rightarrow> app" where
  "setLoading b s = s\<lparr>loading := b, trace := trace s @ [SetLoading b]\<rparr>"

subsection \<open>The handlers\<close>

text \<open>
  \<open>fetchBooks\<close> runs up to its \<open>await\<close> (\<open>fetchBooks_request\<close>) and resumes when the
  response is there (\<open>fetchBooks_settle\<close>). A caller that does not await it, as
  \<open>handleSubmit\<close> and the \<open>onPress\<close> of \<open>handleDelete\<close> do, runs its own remaining
  statements in between.
\<close>

definition fetchBooks_request :: "app \<Rightarrow> app" where
  "fetchBooks_request s = axios GET (API_URL @ ''/books'') None (setLoading True s)"

definition fetchBooks_settle :: "book list response \<Rightarrow> app \<Rightarrow> app" where
  "fetchBooks_settle res s =
     setLoading False
       (case res of
          Resolved d \<Rightarrow> s\<lparr>books := d\<rparr>
        | Rejected m \<Rightarrow>
            console_error ''Fetch books error:'' m
              (alert ''Error''
                 ''Failed to fetch books. Check your API URL and server connection.'' s))"

definition fetchBooks :: "book list response \<Rightarrow> app \<Rightarrow> app" where
  "fetchBooks res s = fetchBooks_settle res (fetchBooks_request s)"

definition resetForm :: "app \<Rightarrow> app" where
  "resetForm s = s\<lparr>title := [], author := [], year := [], description := [],
                    editingId := None\<rparr>"

definition submit_data :: "app \<Rightarrow> payload" where
  "submit_data s =
     \<lparr>data_title = trim (title s),
      data_author = trim (author s),
      data_year = (if year s \<noteq> [] then Some (parseInt10 (year s)) else None),
      data_description = trim (description s)\<rparr>"

text \<open>
  \<open>handleSubmit\<close> reads \<open>title\<close>, \<open>author\<close>, \<open>year\<close>, \<open>description\<close> and \<open>editingId\<close>
  from its closure, that is from the state \<open>s\<close> it was called in. \<open>res\<close> is the outcome
  of the PUT or POST, \<open>fres\<close> that of the GET of the refresh. The PUT branch is taken
  only for a truthy \<open>editingId\<close>, which is then not null, so \<open>the\<close> reads an id that
  is there.
\<close>

definition handleSubmit :: "unit response \<Rightarrow> book list response \<Rightarrow> app \<Rightarrow> app" where
  "handleSubmit res fres s =
     (if trim (title s) = [] \<or> trim (author s) = []
      then alert ''Validation'' ''Title and author are required.'' s
      else
        let data = submit_data s;
            s1 = setLoading True s;
            s2 = (if truthy_id (editingId s)
                  then axios PUT (API_URL @ ''/books/'' @ id_toString (the (editingId s)))
                         (Some data) s1
                  else axios POST (API_URL @ ''/books'') (Some data) s1)
        in case res of
             Resolved _ \<Rightarrow>
               fetchBooks_settle fres
                 (setLoading False
                    (resetForm
                       (fetchBooks_request
                          (alert ''Success''
                             (if truthy_id (editingId s) then ''Book updated successfully!''
                              else ''Book added successfully!'') s2))))
           | Rejected e \<Rightarrow>
               setLoading False
                 (console_error ''Submit book error:'' e
                    (alert ''Error''
                       (''Failed to '' @ (if truthy_id (editingId s) then ''update'' else ''add'')
                          @ '' book. Check your network and API.'') s2)))"

text \<open>
  \<open>handleDelete\<close> shows a dialog with the buttons Cancel and Delete that cannot be
  dismissed otherwise (\<open>cancelable: false\<close>); \<open>b\<close> is the button pressed. Cancel has no
  \<open>onPress\<close>.
\<close>

definition handleDelete ::
    "ident \<Rightarrow> button \<Rightarrow> unit response \<Rightarrow> book list response \<Rightarrow> app \<Rightarrow> app" where
  "handleDelete i b res fres s =
     (let s0 = s\<lparr>trace := trace s @
                  [Confirm ''Delete Book'' ''Are you sure you want to delete this book?''
                     [''Cancel'', ''Delete'']]\<rparr>
      in case b of
           Cancel \<Rightarrow> s0
         | Delete \<Rightarrow>
             (let s1 = axios DELETE (API_URL @ ''/books/'' @ id_toString i) None
                         (setLoading True s0)
              in (case res of
                    Resolved _ \<Rightarrow>
                      fetchBooks_settle fres
                        (setLoading False
                           (fetchBooks_request
                              (alert ''Success'' ''Book deleted successfully!'' s1)))
                  | Rejected e \<Rightarrow>
                      setLoading False
                        (console_error ''Delete book error:'' e
                           (alert ''Error''
                              ''Failed to delete book. Check your network and API.'' s1)))))"

definition startEdit :: "book \<Rightarrow> app \<Rightarrow> app" where
  "startEdit b s =
     s\<lparr>editingId := Some (book_id b),
       title := book_title b,
       author := book_author b,
       year := (case book_year b of
                  None \<Rightarrow> []
                | Some y \<Rightarrow> if y \<noteq> 0 then num_toString y else []),
       description := (case book_description b of
                         None \<Rightarrow> []
                       | Some d \<Rightarrow> if d \<noteq> [] then d else [])\<rparr>"

subsection \<open>Observations on traces\<close>

text \<open>What an operation added to the trace.\<close>

definition emitted :: "app \<Rightarrow> app \<Rightarrow> event list" where
  "emitted s s' = drop (length (trace s)) (trace s')"

text \<open>The requests of one HTTP verb in a trace: URL and body of each, in order.\<close>

fun sent :: "http_method \<Rightarrow> event list \<Rightarrow> (string \<times> payload option) list" where
  "sent m [] = []"
| "sent m (Request m' u d # es) = (if m' = m then (u, d) # sent m es else sent m es)"
| "sent m (e # es) = sent m es"

text \<open>The bodies of the requests in a trace that carry one.\<close>

fun bodies :: "event list \<Rightarrow> payload list" where
  "bodies [] = []"
| "bodies (Request m u (Some d) # es) = d # bodies es"
| "bodies (e # es) = bodies es"

fun is_request :: "event \<Rightarrow> bool" where
  "is_request (Request m u d) = True"
| "is_request e = False"

fun is_alert :: "event \<Rightarrow> bool" where
  "is_alert (Alert t m) = True"
| "is_alert e = False"



subsection \<open>The properties of the specification\<close>

fun is_integer :: "jsnum \<Rightarrow> bool" where
  "is_integer (Num n) = True"
| "is_integer v = False"

text \<open>
  A trimmed string neither starts nor ends with white space.
\<close>

definition trimmed :: "string \<Rightarrow> bool" where
  "trimmed d = (case d of [] \<Rightarrow> True | c # cs \<Rightarrow> \<not> is_ws c \<and> \<not> is_ws (last d))"

text \<open>
  The invariant of the data model, in the specification's words: title and author are
  non-empty trimmed strings; year, if present, is a parsed integer.
\<close>

definition payload_invariant :: "payload \<Rightarrow> bool" where
  "payload_invariant d =
     (data_title d \<noteq> [] \<and> trimmed (data_title d) \<and>
      data_author d \<noteq> [] \<and> trimmed (data_author d) \<and>
      (case data_year d of None \<Rightarrow> True | Some v \<Rightarrow> is_integer v))"

text \<open>
  The text of a book's year as a copy into the form has it: what JavaScript prints for
  the number, or nothing when the book has no year.
\<close>

definition year_text :: "int option \<Rightarrow> string" where
  "year_text y = (case y of None \<Rightarrow> [] | Some n \<Rightarrow> num_toString n)"

subsection \<open>Example states\<close>

definition dune_form :: app where
  "dune_form =
     \<lparr>books = [], title = ''Dune'', author = ''Herbert'', year = ''1965'',
      description = [], editingId = None, loading = False, trace = []\<rparr>"

definition blank_title_form :: app where
  "blank_title_form =
     \<lparr>books = [], title = ''  '', author = ''Herbert'', year = ''1965'',
      description = [], editingId = None, loading = False, trace = []\<rparr>"

definition bad_year_form :: app where
  "bad_year_form =
     \<lparr>books = [], title = ''Dune'', author = ''Herbert'', year = ''abc'',
      description = [], editingId = None, loading = False, trace = []\<rparr>"

definition dune_book :: book where
  "dune_book =
     \<lparr>book_id = IdNum 7, book_title = ''Dune'', book_author = ''Herbert'',
      book_year = Some 1965, book_description = None\<rparr>"

definition year_zero_book :: book where
  "year_zero_book =
     \<lparr>book_id = IdNum 8, book_title = ''Annals'', book_author = ''Anon'',
      book_year = Some 0, book_description = Some ''undated''\<rparr>"

definition form_of :: "string \<Rightarrow> string \<Rightarrow> string \<Rightarrow> app" where
  "form_of t a y =
     \<lparr>books = [], title = t, author = a, year = y,
      description = [], editingId = None, loading = False, trace = []\<rparr>"

definition old_book :: book where
  "old_book =
     \<lparr>book_id = IdStr ''b-17'', book_title = ''Commentarii'', book_author = ''Caesar'',
      book_year = Some (- 44), book_description = Some ''Notes''\<rparr>"

definition far_book :: book where
  "far_book =
     \<lparr>book_id = IdNum (10 ^ 21), book_title = ''Last'', book_author = ''Anon'',
      book_year = Some (10 ^ 21), book_description = None\<rparr>"

section \<open>Auxiliary facts\<close>

lemmas effect_defs = alert_def console_error_def axios_def setLoading_def

lemmas handler_defs = handleSubmit_def handleDelete_def fetchBooks_def
  fetchBooks_settle_def fetchBooks_request_def resetForm_def emitted_def Let_def

lemmas string_defs = trim_def is_ws_def

lemma trim_dune: "trim (title dune_form) \<noteq> []"
  by (simp add: dune_form_def string_defs)

lemma trim_herbert: "trim (author dune_form) \<noteq> []"
  by (simp add: dune_form_def string_defs)

lemmas number_defs = parseInt10_def digit_run_def sign_stripped_def is_digit_def
  digits_value_def digit_val_def to_Number_def round_double_def

lemmas text_defs = num_toString_def num_text_def round_double_def candidate_def
  exponent_form_def Let_def

text \<open>
  Trimming twice is trimming once: what \<open>dropWhile\<close> leaves starts with a character
  that is kept, and stripping the other end does not change that.
\<close>

lemma dropWhile_rev_stable:
  assumes "u = [] \<or> \<not> P (hd u)"
  shows "dropWhile P (rev (dropWhile P (rev u))) = rev (dropWhile P (rev u))"
proof (cases "dropWhile P (rev u) = []")
  case True
  show ?thesis by (simp only: True rev.simps dropWhile.simps)
next
  case False
  then have u: "u \<noteq> []" by auto
  with assms have hu: "\<not> P (hd u)" by simp
  have "rev u = takeWhile P (rev u) @ dropWhile P (rev u)" by simp
  then have "last (rev u) = last (dropWhile P (rev u))"
    using False by (metis last_appendR)
  then have "hd (rev (dropWhile P (rev u))) = hd u"
    using u False by (simp add: hd_rev last_rev)
  with hu show ?thesis
    by (simp add: dropWhile_eq_self_iff)
qed

lemma trim_idem: "trim (trim s) = trim s"
proof -
  have "dropWhile is_ws s = [] \<or> \<not> is_ws (hd (dropWhile is_ws s))"
    using hd_dropWhile [of is_ws s] by blast
  then show ?thesis
    unfolding trim_def
    by (simp only: dropWhile_rev_stable rev_rev_ident dropWhile_idem)
qed

text \<open>
  What \<open>trim\<close> returns is the string without a run of white space at either end, and
  it neither starts nor ends with white space.
\<close>

lemma trim_split:
  "\<exists>a b. s = a @ trim s @ b \<and> list_all is_ws a \<and> list_all is_ws b"
proof -
  define u where "u = dropWhile is_ws s"
  have u: "u = trim s @ rev (takeWhile is_ws (rev u))"
    unfolding trim_def u_def [symmetric]
    by (metis rev_append rev_rev_ident takeWhile_dropWhile_id)
  have "s = takeWhile is_ws s @ u" by (simp add: u_def)
  with u have "s = takeWhile is_ws s @ trim s @ rev (takeWhile is_ws (rev u))" by simp
  moreover have "list_all is_ws (takeWhile is_ws s)"
    by (auto simp: list_all_iff dest: set_takeWhileD)
  moreover have "list_all is_ws (rev (takeWhile is_ws (rev u)))"
    by (auto simp: list_all_iff dest: set_takeWhileD)
  ultimately show ?thesis by blast
qed

lemma trim_ends:
  assumes "trim s \<noteq> []"
  shows "\<not> is_ws (hd (trim s))" and "\<not> is_ws (last (trim s))"
proof -
  define u where "u = dropWhile is_ws s"
  have t: "trim s = rev (dropWhile is_ws (rev u))" by (simp add: trim_def u_def)
  with assms have d: "dropWhile is_ws (rev u) \<noteq> []" by simp
  then have u: "u \<noteq> []" by auto
  then have hu: "\<not> is_ws (hd u)" unfolding u_def by (rule hd_dropWhile)
  have "rev u = takeWhile is_ws (rev u) @ dropWhile is_ws (rev u)" by simp
  then have "last (rev u) = last (dropWhile is_ws (rev u))"
    using d by (metis last_appendR)
  then have "hd (trim s) = hd u"
    using u d by (simp add: t hd_rev last_rev)
  with hu show "\<not> is_ws (hd (trim s))" by simp
  have "last (trim s) = hd (dropWhile is_ws (rev u))"
    using d by (simp add: t last_rev)
  then show "\<not> is_ws (last (trim s))"
    using hd_dropWhile [OF d] by simp
qed

text \<open>The digits that \<open>dec\<close> writes denote the number written.\<close>

lemma digit_char: "d < 10 \<Longrightarrow> is_digit (''0123456789'' ! d) \<and> digit_val (''0123456789'' ! d) = d"
proof -
  assume "d < 10"
  then have "d \<in> {0, 1, 2, 3, 4, 5, 6, 7, 8, 9}" by auto
  then show ?thesis
    by (auto simp: is_digit_def digit_val_def)
qed

lemma dec_digits: "dec n \<noteq> [] \<and> list_all is_digit (dec n) \<and> digits_value (dec n) = n"
proof (induction n rule: dec.induct)
  case (1 n)
  show ?case
  proof (cases "n < 10")
    case True
    then show ?thesis
      using digit_char [of n] by (subst (1 2 3) dec.simps) (simp add: digits_value_def)
  next
    case False
    then have ih: "list_all is_digit (dec (n div 10))" "digits_value (dec (n div 10)) = n div 10"
      using 1 by simp_all
    have m: "n mod 10 < 10" by simp
    show ?thesis
      using False ih digit_char [OF m]
      by (subst (1 2 3) dec.simps) (simp add: digits_value_def)
  qed
qed

text \<open>
  Rounding to a double adds at most one part in \<open>2^53\<close>, so a numeral of up to 308
  digits stays below \<open>2^1024\<close>.
\<close>

lemma bitlen_bounds: "0 < n \<Longrightarrow> 2 ^ (bitlen n - 1) \<le> n \<and> n < 2 ^ bitlen n"
proof (induction n rule: bitlen.induct)
  case (1 n)
  show ?case
  proof (cases "n div 2 = 0")
    case True
    with 1(2) have "n = 1" by auto
    then show ?thesis by (simp add: bitlen.simps)
  next
    case False
    then have ih: "2 ^ (bitlen (n div 2) - 1) \<le> n div 2" "n div 2 < 2 ^ bitlen (n div 2)"
      using 1 by auto
    have b: "bitlen n = Suc (bitlen (n div 2))" using 1(2) by (subst bitlen.simps) simp
    have p: "0 < bitlen (n div 2)" using False by (subst bitlen.simps) simp
    then have "(2::nat) ^ bitlen (n div 2) = 2 * 2 ^ (bitlen (n div 2) - 1)"
      by (cases "bitlen (n div 2)") simp_all
    with ih show ?thesis by (simp add: b) linarith
  qed
qed

lemma round_double_le: "round_double n \<le> n + n div 2 ^ 53"
proof (cases "n < 2 ^ 53")
  case True
  then show ?thesis by (simp add: round_double_def)
next
  case False
  then have n: "2 ^ 53 \<le> n" by simp
  then have pos: "0 < n" by (simp add: less_le_trans [of 0 "2 ^ 53"])
  define k where "k = bitlen n - 53"
  define q where "q = n div 2 ^ k"
  define r where "r = n mod 2 ^ k"
  have bl: "2 ^ (bitlen n - 1) \<le> n" "n < 2 ^ bitlen n"
    using bitlen_bounds [OF pos] by simp_all
  have lt: "(2::nat) ^ 53 < 2 ^ bitlen n" using n bl(2) by (rule le_less_trans)
  have "53 < bitlen n"
    by (rule power_less_imp_less_exp [OF _ lt]) simp
  then have k: "bitlen n - 1 = 53 + (k - 1)" "0 < k" by (simp_all add: k_def)
  have "(2::nat) ^ 53 * 2 ^ (k - 1) \<le> n" using bl(1) unfolding k(1) power_add .
  then have half: "2 ^ (k - 1) \<le> n div 2 ^ 53"
    by (simp add: less_eq_div_iff_mult_less_eq mult.commute)
  have two: "(2::nat) ^ k = 2 * 2 ^ (k - 1)" using k(2) by (cases k) simp_all
  have nqr: "n = q * 2 ^ k + r"
    unfolding q_def r_def by (rule div_mult_mod_eq [symmetric])
  have rd: "round_double n =
      (if 2 ^ k < 2 * r \<or> 2 * r = 2 ^ k \<and> odd q then q + 1 else q) * 2 ^ k"
    using False by (simp add: round_double_def Let_def k_def q_def r_def)
  show ?thesis
  proof (cases "2 ^ k < 2 * r \<or> 2 * r = 2 ^ k \<and> odd q")
    case True
    then have "2 ^ (k - 1) \<le> r" using two by auto
    moreover have "round_double n = q * 2 ^ k + 2 ^ k" using True rd by (simp add: algebra_simps)
    ultimately have "round_double n \<le> n + 2 ^ (k - 1)" using nqr two by linarith
    with half show ?thesis by linarith
  next
    case False
    then have "round_double n = q * 2 ^ k" using rd by simp
    then show ?thesis using nqr by simp
  qed
qed

lemma round_double_finite:
  assumes "n < 10 ^ 308"
  shows "round_double n < 2 ^ 1024"
proof -
  have "n div 2 ^ 53 \<le> 10 ^ 308 div 2 ^ 53" using assms by (simp add: div_le_mono)
  then have "n + n div 2 ^ 53 < 10 ^ 308 + 10 ^ 308 div 2 ^ 53" using assms by linarith
  also have "\<dots> < (2::nat) ^ 1024" by simp
  finally show ?thesis using round_double_le [of n] by linarith
qed


lemma digit_val_le: "is_digit c \<Longrightarrow> digit_val c \<le> 9"
  by (auto simp: is_digit_def digit_val_def)

lemma digit_not_ws: "is_digit c \<Longrightarrow> \<not> is_ws c"
  by (auto simp: is_digit_def is_ws_def)

lemma digit_not_sign: "is_digit c \<Longrightarrow> c \<noteq> CHR ''+'' \<and> c \<noteq> CHR ''-''"
  by (auto simp: is_digit_def)

lemma foldl_digits_bound:
  "list_all is_digit z \<Longrightarrow>
     foldl (\<lambda>a c. 10 * a + digit_val c) a z < (a + 1) * 10 ^ length z"
proof (induction z arbitrary: a)
  case Nil
  then show ?case by simp
next
  case (Cons c z)
  then have d: "digit_val c \<le> 9" by (simp add: digit_val_le)
  have "foldl (\<lambda>a c. 10 * a + digit_val c) (10 * a + digit_val c) z
          < (10 * a + digit_val c + 1) * 10 ^ length z"
    using Cons by simp
  also have "\<dots> \<le> (10 * a + 10) * 10 ^ length z"
  proof (rule mult_le_mono1)
    show "10 * a + digit_val c + 1 \<le> 10 * a + 10" using d by simp
  qed
  finally show ?case by (simp add: algebra_simps)
qed

lemma digits_value_bound:
  assumes "list_all is_digit z" and "length z \<le> k"
  shows "digits_value z < 10 ^ k"
proof -
  have "digits_value z < 10 ^ length z"
    using foldl_digits_bound [OF assms(1), of 0] by (simp add: digits_value_def)
  also have "(10::nat) ^ length z \<le> 10 ^ k"
    using assms(2) by (intro power_increasing) simp_all
  finally show ?thesis .
qed

lemma to_Number_exact:
  assumes "n < 2 ^ 53"
  shows "to_Number neg n = Num (if neg then - int n else int n)"
proof -
  have r: "round_double n = n" using assms by (simp add: round_double_def)
  have "n < 2 ^ 1024" using assms by simp
  then show ?thesis by (simp add: to_Number_def r)
qed

lemma to_Number_integer: "n < 10 ^ 308 \<Longrightarrow> is_integer (to_Number neg n)"
  using round_double_finite [of n] by (simp add: to_Number_def Let_def)

lemma digit_run_digits: "list_all is_digit (digit_run s)"
  by (auto simp: digit_run_def list_all_iff dest: set_takeWhileD)

lemma parseInt10_integer:
  assumes "digit_run s \<noteq> []" and "length (digit_run s) \<le> 308"
  shows "is_integer (parseInt10 s)"
  using assms digits_value_bound [OF digit_run_digits assms(2)]
  by (simp add: parseInt10_def Let_def to_Number_integer)

lemma parseInt10_no_digit: "digit_run s = [] \<Longrightarrow> parseInt10 s = NaN"
  by (simp add: parseInt10_def)

lemma numeral_shape:
  assumes "list_all is_ws w" and "g = [] \<or> g = ''+'' \<or> g = ''-''"
    and "z \<noteq> []" and "list_all is_digit z" and "r = [] \<or> \<not> is_digit (hd r)"
  shows "dropWhile is_ws (w @ g @ z @ r) = g @ z @ r"
    and "digit_run (w @ g @ z @ r) = z"
    and "(hd (g @ z @ r) = CHR ''-'') = (g = ''-'')"
proof -
  from assms(3,4) have hz: "is_digit (hd z)" by (cases z) simp_all
  have nws: "\<not> is_ws (hd (g @ z @ r))"
    using assms(2,3) hz digit_not_ws by (auto simp: is_ws_def)
  have "dropWhile is_ws (w @ g @ z @ r) = dropWhile is_ws (g @ z @ r)"
    using assms(1) by (intro dropWhile_append2) (simp add: list_all_iff)
  also have "\<dots> = g @ z @ r"
    using nws assms(3) by (simp add: dropWhile_eq_self_iff)
  finally show d: "dropWhile is_ws (w @ g @ z @ r) = g @ z @ r" .
  have s: "sign_stripped (g @ z @ r) = z @ r"
    using assms(2,3) hz digit_not_sign by (auto simp: sign_stripped_def)
  have t: "takeWhile is_digit r = []"
    using assms(5) by (cases r) auto
  have "takeWhile is_digit (z @ r) = z @ takeWhile is_digit r"
    using assms(4) by (intro takeWhile_append2) (simp add: list_all_iff)
  then show "digit_run (w @ g @ z @ r) = z"
    by (simp add: digit_run_def d s t)
  show "(hd (g @ z @ r) = CHR ''-'') = (g = ''-'')"
    using assms(2,3) hz digit_not_sign by auto
qed

lemma parseInt10_numeral:
  assumes "list_all is_ws w" and "g = [] \<or> g = ''+'' \<or> g = ''-''"
    and "z \<noteq> []" and "list_all is_digit z" and "r = [] \<or> \<not> is_digit (hd r)"
    and "digits_value z < 2 ^ 53"
  shows "parseInt10 (w @ g @ z @ r) =
           Num (if g = ''-'' then - int (digits_value z) else int (digits_value z))"
  using numeral_shape [OF assms(1-5)] assms(3)
  by (simp add: parseInt10_def Let_def to_Number_exact [OF assms(6)])

lemma fifteen_digits:
  assumes "list_all is_digit z" and "length z \<le> 15"
  shows "digits_value z < 2 ^ 53"
proof -
  have "digits_value z < 10 ^ 15" using assms by (rule digits_value_bound)
  then show ?thesis by simp
qed

lemma no_numeral_shape:
  assumes "list_all is_ws w" and "g = [] \<or> g = ''+'' \<or> g = ''-''"
    and "r = [] \<or> (\<not> is_digit (hd r) \<and>
           (g = [] \<longrightarrow> \<not> is_ws (hd r) \<and> hd r \<noteq> CHR ''+'' \<and> hd r \<noteq> CHR ''-''))"
  shows "digit_run (w @ g @ r) = []"
proof -
  have a: "dropWhile is_ws (w @ g @ r) = dropWhile is_ws (g @ r)"
    using assms(1) by (intro dropWhile_append2) (simp add: list_all_iff)
  have t: "takeWhile is_digit r = []"
    using assms(3) by (cases r) auto
  show ?thesis
  proof (cases "g = []")
    case True
    show ?thesis
    proof (cases r)
      case Nil
      have dw: "dropWhile is_ws w = []" using assms(1) by (simp add: list_all_iff)
      show ?thesis
        unfolding digit_run_def True Nil append_Nil2 dw sign_stripped_def by simp
    next
      case (Cons c cs)
      then have "\<not> is_ws c" "c \<noteq> CHR ''+''" "c \<noteq> CHR ''-''" "\<not> is_digit c"
        using assms(3) True by simp_all
      then show ?thesis
        using True a Cons by (simp add: digit_run_def sign_stripped_def)
    qed
  next
    case False
    then have "g = ''+'' \<or> g = ''-''" using assms(2) by simp
    then show ?thesis
      using a t by (auto simp: digit_run_def sign_stripped_def is_ws_def)
  qed
qed

lemma num_text_safe: "m < 2 ^ 53 \<Longrightarrow> num_text m = dec m"
  by (simp add: num_text_def round_double_def)

lemma parseInt10_num_toString:
  assumes "\<bar>y\<bar> < 2 ^ 53"
  shows "parseInt10 (num_toString y) = Num y"
proof (cases "y < 0")
  case True
  define m where "m = nat (- y)"
  have m: "m < 2 ^ 53" using assms True by (simp add: m_def)
  have t: "num_toString y = [] @ ''-'' @ dec m @ []"
    using True m by (simp add: num_toString_def num_text_safe m_def)
  have "parseInt10 ([] @ ''-'' @ dec m @ []) =
          Num (if ''-'' = ''-'' then - int (digits_value (dec m)) else int (digits_value (dec m)))"
    using dec_digits [of m] m by (intro parseInt10_numeral) simp_all
  then show ?thesis using True by (simp add: t dec_digits m_def)
next
  case False
  define m where "m = nat y"
  have m: "m < 2 ^ 53" using assms False by (simp add: m_def)
  have t: "num_toString y = [] @ [] @ dec m @ []"
    using False m by (simp add: num_toString_def num_text_safe m_def)
  have "parseInt10 ([] @ [] @ dec m @ []) =
          Num (if [] = ''-'' then - int (digits_value (dec m)) else int (digits_value (dec m)))"
    using dec_digits [of m] m by (intro parseInt10_numeral) simp_all
  then show ?thesis using False by (simp add: t dec_digits m_def)
qed

lemmas digit_defs = is_ws_def is_digit_def digits_value_def digit_val_def

lemma is_integer_Num: "is_integer v \<Longrightarrow> \<exists>n. v = Num n"
  by (cases v) simp_all

lemma trimmed_trim: "trimmed (trim s)"
proof (cases "trim s")
  case Nil
  then show ?thesis by (simp add: trimmed_def)
next
  case (Cons c cs)
  then have "trim s \<noteq> []" by simp
  from trim_ends [OF this] Cons show ?thesis by (simp add: trimmed_def)
qed

text \<open>A submit that passes validation sends one body, the object \<open>data\<close>.\<close>

lemma submit_bodies:
  assumes "trim (title s) \<noteq> []" and "trim (author s) \<noteq> []"
  shows "bodies (emitted s (handleSubmit res fres s)) = [submit_data s]"
  using assms by (cases res; cases fres) (simp_all add: handler_defs effect_defs)

section \<open>The claims\<close>

subsection \<open>Validation failure (C1)\<close>

text \<open>
  C1. For every form state in which the trimmed title or the trimmed author is empty,
  \<open>handleSubmit\<close> issues no request, shows the validation alert and nothing else, and
  leaves the cached list, the four form fields and \<open>editingId\<close> as they were.
\<close>

theorem submit_invalid_no_request:
  assumes "trim (title s) = [] \<or> trim (author s) = []"
  shows "filter is_request (emitted s (handleSubmit res fres s)) = [] \<and>
         emitted s (handleSubmit res fres s) =
           [Alert ''Validation'' ''Title and author are required.''] \<and>
         books (handleSubmit res fres s) = books s \<and>
         title (handleSubmit res fres s) = title s \<and>
         author (handleSubmit res fres s) = author s \<and>
         year (handleSubmit res fres s) = year s \<and>
         description (handleSubmit res fres s) = description s \<and>
         editingId (handleSubmit res fres s) = editingId s"
  using assms by (simp add: handleSubmit_def alert_def emitted_def)

theorem submit_invalid_no_request_witness:
  "(trim (title blank_title_form) = [] \<or> trim (author blank_title_form) = []) \<and>
   filter is_request
     (emitted blank_title_form (handleSubmit (Resolved ()) (Resolved []) blank_title_form)) = [] \<and>
   emitted blank_title_form (handleSubmit (Resolved ()) (Resolved []) blank_title_form) =
     [Alert ''Validation'' ''Title and author are required.''] \<and>
   title (handleSubmit (Resolved ()) (Resolved []) blank_title_form) = ''  ''"
proof -
  have h: "trim (title blank_title_form) = [] \<or> trim (author blank_title_form) = []"
    by (simp add: blank_title_form_def string_defs)
  have t: "title blank_title_form = ''  ''"
    by (simp add: blank_title_form_def)
  show ?thesis
    using h t submit_invalid_no_request [OF h, of "Resolved ()" "Resolved []"] by simp
qed

subsection \<open>The Dune example (C2)\<close>

text \<open>
  C2. With title "Dune", author "Herbert", year "1965", an empty description and
  \<open>editingId\<close> null, \<open>handleSubmit\<close> sends exactly one POST, to \<open>/books\<close> under the
  base address, with the body \<open>{title: "Dune", author: "Herbert", year: 1965,
  description: ""}\<close>, and no PUT, whatever the server answers.
\<close>

theorem submit_dune_posts_payload:
  assumes "title s = ''Dune''" and "author s = ''Herbert''" and "year s = ''1965''"
    and "description s = []" and "editingId s = None"
  shows "sent POST (emitted s (handleSubmit res fres s)) =
           [(API_URL @ ''/books'',
             Some \<lparr>data_title = ''Dune'', data_author = ''Herbert'',
                   data_year = Some (Num 1965), data_description = []\<rparr>)] \<and>
         sent PUT (emitted s (handleSubmit res fres s)) = []"
proof -
  have d: "submit_data s =
             \<lparr>data_title = ''Dune'', data_author = ''Herbert'',
              data_year = Some (Num 1965), data_description = []\<rparr>"
    using assms by (simp add: submit_data_def string_defs number_defs)
  have v: "trim (title s) \<noteq> []" "trim (author s) \<noteq> []"
    using assms by (simp_all add: string_defs)
  show ?thesis
    using v assms(5) by (cases res; cases fres) (simp_all add: handler_defs effect_defs d)
qed

theorem submit_dune_posts_payload_witness:
  "title dune_form = ''Dune'' \<and> author dune_form = ''Herbert'' \<and>
   year dune_form = ''1965'' \<and> description dune_form = [] \<and>
   editingId dune_form = None \<and>
   sent POST (emitted dune_form (handleSubmit (Resolved ()) (Resolved []) dune_form)) =
     [(''http://192.168.0.100:8000/books'',
       Some \<lparr>data_title = ''Dune'', data_author = ''Herbert'',
             data_year = Some (Num 1965), data_description = []\<rparr>)]"
proof -
  have f: "title dune_form = ''Dune''" "author dune_form = ''Herbert''"
    "year dune_form = ''1965''" "description dune_form = []" "editingId dune_form = None"
    by (simp_all add: dune_form_def)
  show ?thesis
    using f submit_dune_posts_payload [OF f, of "Resolved ()" "Resolved []"]
    by (simp add: API_URL_def)
qed

subsection \<open>A successful submit (C3)\<close>

text \<open>
  C3. For every form state that passes validation, when the PUT or POST is resolved,
  afterwards \<open>editingId\<close> is null, title, author, year and description are empty
  strings, and exactly one GET of \<open>/books\<close> has been sent, whatever that GET answers.
\<close>

theorem submit_success_resets_form:
  assumes "trim (title s) \<noteq> []" and "trim (author s) \<noteq> []"
  shows "editingId (handleSubmit (Resolved u) fres s) = None \<and>
         title (handleSubmit (Resolved u) fres s) = [] \<and>
         author (handleSubmit (Resolved u) fres s) = [] \<and>
         year (handleSubmit (Resolved u) fres s) = [] \<and>
         description (handleSubmit (Resolved u) fres s) = [] \<and>
         sent GET (emitted s (handleSubmit (Resolved u) fres s)) =
           [(API_URL @ ''/books'', None)]"
  using assms by (cases fres) (simp_all add: handler_defs effect_defs)

theorem submit_success_resets_form_witness:
  "trim (title dune_form) \<noteq> [] \<and> trim (author dune_form) \<noteq> [] \<and>
   editingId (handleSubmit (Resolved ()) (Rejected ''offline'') dune_form) = None \<and>
   title (handleSubmit (Resolved ()) (Rejected ''offline'') dune_form) = [] \<and>
   year (handleSubmit (Resolved ()) (Rejected ''offline'') dune_form) = [] \<and>
   sent GET (emitted dune_form (handleSubmit (Resolved ()) (Rejected ''offline'') dune_form)) =
     [(API_URL @ ''/books'', None)]"
  using trim_dune trim_herbert
    submit_success_resets_form [OF trim_dune trim_herbert, of "()" "Rejected ''offline''"]
  by simp

subsection \<open>The payload (C4)\<close>

text \<open>
  C4, as amended. For every form state that passes validation, the one body
  \<open>handleSubmit\<close> sends has a title and an author that are non-empty and trimmed: the
  form's title and author without the white space at either end. Its year is absent
  exactly when the year text is empty, and is otherwise \<open>parseInt(year, 10)\<close>. That is
  an integer whenever the text has, after leading white space and an optional sign, a
  run of 1 to 308 decimal digits, and it is the integer that sign and digits denote
  when there are at most 15 of them, whatever follows the digits. It is \<open>NaN\<close> when
  no decimal digit stands there.
\<close>

theorem submit_payload_shape:
  assumes "trim (title s) \<noteq> []" and "trim (author s) \<noteq> []"
  shows "bodies (emitted s (handleSubmit res fres s)) = [submit_data s] \<and>
         data_title (submit_data s) \<noteq> [] \<and>
         trimmed (data_title (submit_data s)) \<and>
         trim (data_title (submit_data s)) = data_title (submit_data s) \<and>
         (\<exists>a b. title s = a @ data_title (submit_data s) @ b \<and>
            list_all is_ws a \<and> list_all is_ws b) \<and>
         data_author (submit_data s) \<noteq> [] \<and>
         trimmed (data_author (submit_data s)) \<and>
         trim (data_author (submit_data s)) = data_author (submit_data s) \<and>
         (\<exists>a b. author s = a @ data_author (submit_data s) @ b \<and>
            list_all is_ws a \<and> list_all is_ws b) \<and>
         (data_year (submit_data s) = None \<longleftrightarrow> year s = []) \<and>
         (year s \<noteq> [] \<longrightarrow> data_year (submit_data s) = Some (parseInt10 (year s))) \<and>
         (year s \<noteq> [] \<and> digit_run (year s) \<noteq> [] \<and> length (digit_run (year s)) \<le> 308 \<longrightarrow>
            (\<exists>n. data_year (submit_data s) = Some (Num n))) \<and>
         (year s = w @ g @ z @ r \<and> list_all is_ws w \<and> (g = [] \<or> g = ''+'' \<or> g = ''-'') \<and>
          z \<noteq> [] \<and> list_all is_digit z \<and> length z \<le> 15 \<and> (r = [] \<or> \<not> is_digit (hd r)) \<longrightarrow>
            data_year (submit_data s) =
              Some (Num (if g = ''-'' then - int (digits_value z) else int (digits_value z)))) \<and>
         (year s \<noteq> [] \<and> digit_run (year s) = [] \<longrightarrow> data_year (submit_data s) = Some NaN) \<and>
         (year s \<noteq> [] \<and> year s = w' @ g' @ r' \<and> list_all is_ws w' \<and>
          (g' = [] \<or> g' = ''+'' \<or> g' = ''-'') \<and>
          (r' = [] \<or> (\<not> is_digit (hd r') \<and>
             (g' = [] \<longrightarrow> \<not> is_ws (hd r') \<and> hd r' \<noteq> CHR ''+'' \<and> hd r' \<noteq> CHR ''-''))) \<longrightarrow>
            data_year (submit_data s) = Some NaN)"
proof -
  have t: "data_title (submit_data s) = trim (title s)"
    and a: "data_author (submit_data s) = trim (author s)"
    and y: "data_year (submit_data s) =
              (if year s \<noteq> [] then Some (parseInt10 (year s)) else None)"
    by (simp_all add: submit_data_def)
  have c1: "bodies (emitted s (handleSubmit res fres s)) = [submit_data s]"
    using assms by (rule submit_bodies)
  have c2: "data_title (submit_data s) \<noteq> []" "trimmed (data_title (submit_data s))"
    "trim (data_title (submit_data s)) = data_title (submit_data s)"
    "\<exists>a b. title s = a @ data_title (submit_data s) @ b \<and> list_all is_ws a \<and> list_all is_ws b"
    using assms(1) trim_split [of "title s"] by (simp_all add: t trimmed_trim trim_idem)
  have c3: "data_author (submit_data s) \<noteq> []" "trimmed (data_author (submit_data s))"
    "trim (data_author (submit_data s)) = data_author (submit_data s)"
    "\<exists>a b. author s = a @ data_author (submit_data s) @ b \<and> list_all is_ws a \<and> list_all is_ws b"
    using assms(2) trim_split [of "author s"] by (simp_all add: a trimmed_trim trim_idem)
  have c4: "data_year (submit_data s) = None \<longleftrightarrow> year s = []"
    and c5: "year s \<noteq> [] \<longrightarrow> data_year (submit_data s) = Some (parseInt10 (year s))"
    by (simp_all add: y)
  have c6: "year s \<noteq> [] \<and> digit_run (year s) \<noteq> [] \<and> length (digit_run (year s)) \<le> 308 \<longrightarrow>
            (\<exists>n. data_year (submit_data s) = Some (Num n))"
    using parseInt10_integer [of "year s"] is_integer_Num [of "parseInt10 (year s)"]
    by (auto simp: y)
  have c7: "year s = w @ g @ z @ r \<and> list_all is_ws w \<and> (g = [] \<or> g = ''+'' \<or> g = ''-'') \<and>
          z \<noteq> [] \<and> list_all is_digit z \<and> length z \<le> 15 \<and> (r = [] \<or> \<not> is_digit (hd r)) \<longrightarrow>
            data_year (submit_data s) =
              Some (Num (if g = ''-'' then - int (digits_value z) else int (digits_value z)))"
  proof (intro impI, elim conjE)
    assume h: "year s = w @ g @ z @ r" "list_all is_ws w" "g = [] \<or> g = ''+'' \<or> g = ''-''"
      "z \<noteq> []" "list_all is_digit z" "length z \<le> 15" "r = [] \<or> \<not> is_digit (hd r)"
    have "parseInt10 (w @ g @ z @ r) =
            Num (if g = ''-'' then - int (digits_value z) else int (digits_value z))"
      using h(2,3,4,5,7) fifteen_digits [OF h(5,6)] by (rule parseInt10_numeral)
    moreover have "year s \<noteq> []" using h(1,4) by simp
    ultimately show "data_year (submit_data s) =
              Some (Num (if g = ''-'' then - int (digits_value z) else int (digits_value z)))"
      by (simp add: y h(1))
  qed
  have c8: "year s \<noteq> [] \<and> digit_run (year s) = [] \<longrightarrow> data_year (submit_data s) = Some NaN"
    by (simp add: y parseInt10_no_digit)
  have c9: "year s \<noteq> [] \<and> year s = w' @ g' @ r' \<and> list_all is_ws w' \<and>
          (g' = [] \<or> g' = ''+'' \<or> g' = ''-'') \<and>
          (r' = [] \<or> (\<not> is_digit (hd r') \<and>
             (g' = [] \<longrightarrow> \<not> is_ws (hd r') \<and> hd r' \<noteq> CHR ''+'' \<and> hd r' \<noteq> CHR ''-''))) \<longrightarrow>
            data_year (submit_data s) = Some NaN"
  proof (intro impI, elim conjE)
    assume h: "year s \<noteq> []" "year s = w' @ g' @ r'" "list_all is_ws w'"
      "g' = [] \<or> g' = ''+'' \<or> g' = ''-''"
      "r' = [] \<or> (\<not> is_digit (hd r') \<and>
             (g' = [] \<longrightarrow> \<not> is_ws (hd r') \<and> hd r' \<noteq> CHR ''+'' \<and> hd r' \<noteq> CHR ''-''))"
    have "digit_run (w' @ g' @ r') = []" using h(3,4,5) by (rule no_numeral_shape)
    then show "data_year (submit_data s) = Some NaN"
      using h(1) by (simp add: y h(2) parseInt10_no_digit)
  qed
  show ?thesis
    using c1 c2 c3 c4 c5 c6 c7 c8 c9 by (intro conjI)
qed

text \<open>
  The theorem at forms with white space around title and author, and at the year
  texts " 42abc", "-5", "12.5", "+7", "1965", " -", ".5" and "".
\<close>

theorem submit_payload_shape_witness:
  "trim (title (form_of ''  Dune '' '' Herbert'' '' 42abc'')) \<noteq> [] \<and>
   trim (author (form_of ''  Dune '' '' Herbert'' '' 42abc'')) \<noteq> [] \<and>
   bodies (emitted (form_of ''  Dune '' '' Herbert'' '' 42abc'')
     (handleSubmit (Resolved ()) (Resolved []) (form_of ''  Dune '' '' Herbert'' '' 42abc''))) =
     [\<lparr>data_title = ''Dune'', data_author = ''Herbert'', data_year = Some (Num 42),
       data_description = []\<rparr>] \<and>
   data_year (submit_data (form_of ''Dune'' ''Herbert'' ''-5'')) = Some (Num (- 5)) \<and>
   data_year (submit_data (form_of ''Dune'' ''Herbert'' ''12.5'')) = Some (Num 12) \<and>
   data_year (submit_data (form_of ''Dune'' ''Herbert'' ''+7'')) = Some (Num 7) \<and>
   data_year (submit_data (form_of ''Dune'' ''Herbert'' ''1965'')) = Some (Num 1965) \<and>
   data_year (submit_data (form_of ''Dune'' ''Herbert'' '' -'')) = Some NaN \<and>
   data_year (submit_data (form_of ''Dune'' ''Herbert'' ''.5'')) = Some NaN \<and>
   data_year (submit_data (form_of ''Dune'' ''Herbert'' [])) = None"
proof -
  note k2 = conjunct2 [THEN conjunct2]
  note k4 = k2 [THEN k2]
  note k8 = k4 [THEN k4]
  have v: "trim (title (form_of ''  Dune '' '' Herbert'' y)) \<noteq> []"
    "trim (author (form_of ''  Dune '' '' Herbert'' y)) \<noteq> []" for y
    by (simp_all add: form_of_def string_defs)
  have u: "trim (title (form_of ''Dune'' ''Herbert'' y)) \<noteq> []"
    "trim (author (form_of ''Dune'' ''Herbert'' y)) \<noteq> []" for y
    by (simp_all add: form_of_def string_defs)
  note P = submit_payload_shape
      [where s = "form_of ''  Dune '' '' Herbert'' '' 42abc''"
         and res = "Resolved ()" and fres = "Resolved []"
         and w = "'' ''" and g = "[]" and z = "''42''" and r = "''abc''"
         and w' = "[]" and g' = "[]" and r' = "[]", OF v]
  have y1: "data_year (submit_data (form_of ''  Dune '' '' Herbert'' '' 42abc'')) = Some (Num 42)"
    using P [THEN k8, THEN k4, THEN conjunct1] by (simp add: form_of_def digit_defs)
  have b: "bodies (emitted (form_of ''  Dune '' '' Herbert'' '' 42abc'')
     (handleSubmit (Resolved ()) (Resolved []) (form_of ''  Dune '' '' Herbert'' '' 42abc''))) =
     [submit_data (form_of ''  Dune '' '' Herbert'' '' 42abc'')]"
    using P by (rule conjunct1)
  have d: "submit_data (form_of ''  Dune '' '' Herbert'' '' 42abc'') =
     \<lparr>data_title = ''Dune'', data_author = ''Herbert'',
      data_year = data_year (submit_data (form_of ''  Dune '' '' Herbert'' '' 42abc'')),
      data_description = []\<rparr>"
    by (simp add: submit_data_def form_of_def string_defs)
  have y2: "data_year (submit_data (form_of ''Dune'' ''Herbert'' ''-5'')) = Some (Num (- 5))"
    using submit_payload_shape
      [where s = "form_of ''Dune'' ''Herbert'' ''-5''"
         and res = "Resolved ()" and fres = "Resolved []"
         and w = "[]" and g = "''-''" and z = "''5''" and r = "[]"
         and w' = "[]" and g' = "[]" and r' = "[]", OF u,
         THEN k8, THEN k4, THEN conjunct1]
    by (simp add: form_of_def digit_defs)
  have y3: "data_year (submit_data (form_of ''Dune'' ''Herbert'' ''12.5'')) = Some (Num 12)"
    using submit_payload_shape
      [where s = "form_of ''Dune'' ''Herbert'' ''12.5''"
         and res = "Resolved ()" and fres = "Resolved []"
         and w = "[]" and g = "[]" and z = "''12''" and r = "''.5''"
         and w' = "[]" and g' = "[]" and r' = "[]", OF u,
         THEN k8, THEN k4, THEN conjunct1]
    by (simp add: form_of_def digit_defs)
  have y4: "data_year (submit_data (form_of ''Dune'' ''Herbert'' ''+7'')) = Some (Num 7)"
    using submit_payload_shape
      [where s = "form_of ''Dune'' ''Herbert'' ''+7''"
         and res = "Resolved ()" and fres = "Resolved []"
         and w = "[]" and g = "''+''" and z = "''7''" and r = "[]"
         and w' = "[]" and g' = "[]" and r' = "[]", OF u,
         THEN k8, THEN k4, THEN conjunct1]
    by (simp add: form_of_def digit_defs)
  have y5: "data_year (submit_data (form_of ''Dune'' ''Herbert'' ''1965'')) = Some (Num 1965)"
    using submit_payload_shape
      [where s = "form_of ''Dune'' ''Herbert'' ''1965''"
         and res = "Resolved ()" and fres = "Resolved []"
         and w = "[]" and g = "[]" and z = "''1965''" and r = "[]"
         and w' = "[]" and g' = "[]" and r' = "[]", OF u,
         THEN k8, THEN k4, THEN conjunct1]
    by (simp add: form_of_def digit_defs)
  have y6: "data_year (submit_data (form_of ''Dune'' ''Herbert'' '' -'')) = Some NaN"
    using submit_payload_shape
      [where s = "form_of ''Dune'' ''Herbert'' '' -''"
         and res = "Resolved ()" and fres = "Resolved []"
         and w = "[]" and g = "[]" and z = "[]" and r = "[]"
         and w' = "'' ''" and g' = "''-''" and r' = "[]", OF u,
         THEN k8, THEN k4, THEN k2]
    by (simp add: form_of_def digit_defs)
  have y7: "data_year (submit_data (form_of ''Dune'' ''Herbert'' ''.5'')) = Some NaN"
    using submit_payload_shape
      [where s = "form_of ''Dune'' ''Herbert'' ''.5''"
         and res = "Resolved ()" and fres = "Resolved []"
         and w = "[]" and g = "[]" and z = "[]" and r = "[]"
         and w' = "[]" and g' = "[]" and r' = "''.5''", OF u,
         THEN k8, THEN k4, THEN k2]
    by (simp add: form_of_def digit_defs)
  have y8: "data_year (submit_data (form_of ''Dune'' ''Herbert'' [])) = None"
    using submit_payload_shape
      [where s = "form_of ''Dune'' ''Herbert'' []"
         and res = "Resolved ()" and fres = "Resolved []"
         and w = "[]" and g = "[]" and z = "[]" and r = "[]"
         and w' = "[]" and g' = "[]" and r' = "[]", OF u,
         THEN k8, THEN conjunct2, THEN conjunct1]
    by (simp add: form_of_def)
  have b': "bodies (emitted (form_of ''  Dune '' '' Herbert'' '' 42abc'')
     (handleSubmit (Resolved ()) (Resolved []) (form_of ''  Dune '' '' Herbert'' '' 42abc''))) =
     [\<lparr>data_title = ''Dune'', data_author = ''Herbert'', data_year = Some (Num 42),
       data_description = []\<rparr>]"
    using b d y1 by simp
  show ?thesis
    using v [of "'' 42abc''"] b' y2 y3 y4 y5 y6 y7 y8 by (intro conjI)
qed

text \<open>
  C4 as stated fails: with the year text "abc" the form passes validation and the
  body sent has the year \<open>NaN\<close>, which is present and is not an integer.
\<close>

theorem submit_year_counterexample:
  "trim (title bad_year_form) \<noteq> [] \<and> trim (author bad_year_form) \<noteq> [] \<and>
   bodies (emitted bad_year_form (handleSubmit (Resolved ()) (Resolved []) bad_year_form)) =
     [\<lparr>data_title = ''Dune'', data_author = ''Herbert'', data_year = Some NaN,
       data_description = []\<rparr>] \<and>
   \<not> payload_invariant
       \<lparr>data_title = ''Dune'', data_author = ''Herbert'', data_year = Some NaN,
        data_description = []\<rparr>"
  by (simp add: bad_year_form_def handler_defs effect_defs submit_data_def string_defs
      number_defs payload_invariant_def)

subsection \<open>Starting an edit (C5)\<close>

text \<open>
  C5, as amended. For every book, \<open>startEdit\<close> sets \<open>editingId\<close> to the book's id and
  copies the title, the author and the description (empty when the book has none)
  into the form. The year field gets the text JavaScript prints for the book's year
  when the book has a year other than 0, and is empty when the book has no year or the
  year 0. For a year of magnitude below \<open>2^53\<close> that text is one that \<open>parseInt\<close>
  reads back as the year.
\<close>

theorem startEdit_fills_form:
  "editingId (startEdit b s) = Some (book_id b) \<and>
   title (startEdit b s) = book_title b \<and>
   author (startEdit b s) = book_author b \<and>
   year (startEdit b s) = (if book_year b = Some 0 then [] else year_text (book_year b)) \<and>
   description (startEdit b s) =
     (case book_description b of None \<Rightarrow> [] | Some d \<Rightarrow> d) \<and>
   (book_year b = Some y \<and> y \<noteq> 0 \<and> \<bar>y\<bar> < 2 ^ 53 \<longrightarrow>
      parseInt10 (year (startEdit b s)) = Num y)"
  by (simp add: startEdit_def year_text_def parseInt10_num_toString split: option.split)

text \<open>
  The theorem at a book of 1965 with numeric id and no description, at a book of the
  year -44 with a string id and a description, and at a book of the year \<open>10^21\<close>.
\<close>

theorem startEdit_fills_form_witness:
  "editingId (startEdit dune_book dune_form) = Some (IdNum 7) \<and>
   title (startEdit dune_book dune_form) = ''Dune'' \<and>
   author (startEdit dune_book dune_form) = ''Herbert'' \<and>
   year (startEdit dune_book dune_form) = ''1965'' \<and>
   description (startEdit dune_book dune_form) = [] \<and>
   parseInt10 (year (startEdit dune_book dune_form)) = Num 1965 \<and>
   editingId (startEdit old_book dune_form) = Some (IdStr ''b-17'') \<and>
   year (startEdit old_book dune_form) = ''-44'' \<and>
   description (startEdit old_book dune_form) = ''Notes'' \<and>
   parseInt10 (year (startEdit old_book dune_form)) = Num (- 44) \<and>
   year (startEdit far_book dune_form) = ''1e+21''"
proof -
  have d: "book_year dune_book = Some 1965" "book_id dune_book = IdNum 7"
    "book_title dune_book = ''Dune''" "book_author dune_book = ''Herbert''"
    "book_description dune_book = None"
    by (simp_all add: dune_book_def)
  have t1: "year_text (Some 1965) = ''1965''"
    by (simp add: year_text_def text_defs dec.simps)
  have o: "book_year old_book = Some (- 44)" "book_id old_book = IdStr ''b-17''"
    "book_description old_book = Some ''Notes''"
    by (simp_all add: old_book_def)
  have t2: "year_text (Some (- 44)) = ''-44''"
    by (simp add: year_text_def text_defs dec.simps)
  have f: "book_year far_book = Some 1000000000000000000000"
    by (simp add: far_book_def)
  have t3: "year_text (Some 1000000000000000000000) = ''1e+21''"
    by (simp add: year_text_def text_defs dec.simps bitlen.simps shortest_from.simps)
  note A = startEdit_fills_form [of dune_book dune_form 1965]
  note B = startEdit_fills_form [of old_book dune_form "- 44"]
  note C = startEdit_fills_form [of far_book dune_form 1]
  note k2 = conjunct2 [THEN conjunct2]
  have a1: "editingId (startEdit dune_book dune_form) = Some (IdNum 7)"
    using A [THEN conjunct1] by (simp add: d)
  have a2: "title (startEdit dune_book dune_form) = ''Dune''"
    using A [THEN conjunct2, THEN conjunct1] by (simp add: d)
  have a3: "author (startEdit dune_book dune_form) = ''Herbert''"
    using A [THEN k2, THEN conjunct1] by (simp add: d)
  have a4: "year (startEdit dune_book dune_form) = ''1965''"
    using A [THEN k2, THEN conjunct2, THEN conjunct1] by (simp add: d t1)
  have a5: "description (startEdit dune_book dune_form) = []"
    using A [THEN k2, THEN k2, THEN conjunct1] by (simp add: d)
  have a6: "parseInt10 (year (startEdit dune_book dune_form)) = Num 1965"
    using A [THEN k2, THEN k2, THEN conjunct2] by (simp add: d)
  have b1: "editingId (startEdit old_book dune_form) = Some (IdStr ''b-17'')"
    using B [THEN conjunct1] by (simp add: o)
  have b4: "year (startEdit old_book dune_form) = ''-44''"
    using B [THEN k2, THEN conjunct2, THEN conjunct1] by (simp add: o t2)
  have b5: "description (startEdit old_book dune_form) = ''Notes''"
    using B [THEN k2, THEN k2, THEN conjunct1] by (simp add: o)
  have b6: "parseInt10 (year (startEdit old_book dune_form)) = Num (- 44)"
    using B [THEN k2, THEN k2, THEN conjunct2] by (simp add: o)
  have c4: "year (startEdit far_book dune_form) = ''1e+21''"
    using C [THEN k2, THEN conjunct2, THEN conjunct1] by (simp add: f t3)
  show ?thesis
    using a1 a2 a3 a4 a5 a6 b1 b4 b5 b6 c4 by (intro conjI)
qed

text \<open>
  C5 as stated fails for a book whose year is 0: \<open>book.year ? ... : ''\<close> takes 0 for
  a missing year, so the year field is empty and not "0".
\<close>

theorem startEdit_year_zero_counterexample:
  "book_year year_zero_book = Some 0 \<and>
   year_text (book_year year_zero_book) = ''0'' \<and>
   year (startEdit year_zero_book dune_form) = []"
  by (simp add: startEdit_def year_zero_book_def year_text_def text_defs dec.simps)

subsection \<open>A failed fetch (C6)\<close>

text \<open>
  C6. When the GET of \<open>fetchBooks\<close> is rejected, the cached list stays as it was,
  exactly one alert is shown (the error alert), and the loading flag is false
  afterwards, cleared by the last effect of the operation.
\<close>

theorem fetch_failure_keeps_cache:
  "books (fetchBooks (Rejected m) s) = books s \<and>
   filter is_alert (emitted s (fetchBooks (Rejected m) s)) =
     [Alert ''Error'' ''Failed to fetch books. Check your API URL and server connection.''] \<and>
   loading (fetchBooks (Rejected m) s) = False \<and>
   last (emitted s (fetchBooks (Rejected m) s)) = SetLoading False"
  by (simp add: handler_defs effect_defs)

subsection \<open>Deleting (C7)\<close>

text \<open>
  C7. For every id, the first effect of \<open>handleDelete\<close> is the confirmation dialog.
  When the user presses Cancel, no request at all is sent and the cached list stays as
  it was. When the user presses Delete, exactly one DELETE is sent, to \<open>/books/\<close>
  followed by the id as the template literal prints it (a string id as it is, a
  numeric id of magnitude below \<open>2^53\<close> as a numeral that reads back as the id), and
  when it is resolved exactly one GET of \<open>/books\<close> follows.
\<close>

theorem delete_asks_first:
  "take 1 (emitted s (handleDelete i b res fres s)) =
     [Confirm ''Delete Book'' ''Are you sure you want to delete this book?''
        [''Cancel'', ''Delete'']] \<and>
   filter is_request (emitted s (handleDelete i Cancel res fres s)) = [] \<and>
   books (handleDelete i Cancel res fres s) = books s \<and>
   sent DELETE (emitted s (handleDelete i Delete res fres s)) =
     [(API_URL @ ''/books/'' @ id_toString i, None)] \<and>
   sent GET (emitted s (handleDelete i Delete (Resolved u) fres s)) =
     [(API_URL @ ''/books'', None)] \<and>
   sent DELETE (emitted s (handleDelete (IdStr t) Delete res fres s)) =
     [(API_URL @ ''/books/'' @ t, None)] \<and>
   (\<bar>n\<bar> < 2 ^ 53 \<longrightarrow>
      (\<exists>d. sent DELETE (emitted s (handleDelete (IdNum n) Delete res fres s)) =
             [(API_URL @ ''/books/'' @ d, None)] \<and> parseInt10 d = Num n))"
  by (cases res; cases fres; cases b)
    (simp_all add: handler_defs effect_defs parseInt10_num_toString)

text \<open>
  The theorem at the ids 7, -3, "b-17" and \<open>10^21\<close>, with the addresses written out.
\<close>

theorem delete_asks_first_witness:
  "sent DELETE (emitted dune_form
      (handleDelete (IdNum 7) Delete (Resolved ()) (Resolved []) dune_form)) =
     [(''http://192.168.0.100:8000/books/7'', None)] \<and>
   sent DELETE (emitted dune_form
      (handleDelete (IdNum (- 3)) Delete (Rejected ''gone'') (Resolved []) dune_form)) =
     [(''http://192.168.0.100:8000/books/-3'', None)] \<and>
   sent DELETE (emitted dune_form
      (handleDelete (IdStr ''b-17'') Delete (Resolved ()) (Resolved []) dune_form)) =
     [(''http://192.168.0.100:8000/books/b-17'', None)] \<and>
   sent DELETE (emitted dune_form
      (handleDelete (IdNum (10 ^ 21)) Delete (Resolved ()) (Resolved []) dune_form)) =
     [(''http://192.168.0.100:8000/books/1e+21'', None)] \<and>
   filter is_request (emitted dune_form
      (handleDelete (IdNum 7) Cancel (Resolved ()) (Resolved []) dune_form)) = []"
proof -
  have t1: "num_toString 7 = ''7''" "num_toString (- 3) = ''-3''"
    by (simp_all add: text_defs dec.simps)
  have t2: "num_toString 1000000000000000000000 = ''1e+21''"
    by (simp add: text_defs dec.simps bitlen.simps shortest_from.simps)
  note k2 = conjunct2 [THEN conjunct2]
  have u1: "sent DELETE (emitted dune_form
      (handleDelete (IdNum 7) Delete (Resolved ()) (Resolved []) dune_form)) =
     [(''http://192.168.0.100:8000/books/7'', None)]"
    using delete_asks_first [of dune_form "IdNum 7" Delete "Resolved ()" "Resolved []",
        THEN k2, THEN conjunct2, THEN conjunct1]
    by (simp add: t1 API_URL_def)
  have u2: "sent DELETE (emitted dune_form
      (handleDelete (IdNum (- 3)) Delete (Rejected ''gone'') (Resolved []) dune_form)) =
     [(''http://192.168.0.100:8000/books/-3'', None)]"
    using delete_asks_first [of dune_form "IdNum (- 3)" Delete "Rejected ''gone''" "Resolved []",
        THEN k2, THEN conjunct2, THEN conjunct1]
    by (simp add: t1 API_URL_def)
  have u3: "sent DELETE (emitted dune_form
      (handleDelete (IdStr ''b-17'') Delete (Resolved ()) (Resolved []) dune_form)) =
     [(''http://192.168.0.100:8000/books/b-17'', None)]"
    using delete_asks_first [of dune_form "IdStr ''b-17''" Delete "Resolved ()" "Resolved []",
        THEN k2, THEN conjunct2, THEN conjunct1]
    by (simp add: API_URL_def)
  have u4: "sent DELETE (emitted dune_form
      (handleDelete (IdNum (10 ^ 21)) Delete (Resolved ()) (Resolved []) dune_form)) =
     [(''http://192.168.0.100:8000/books/1e+21'', None)]"
    using delete_asks_first [of dune_form "IdNum (10 ^ 21)" Delete "Resolved ()" "Resolved []",
        THEN k2, THEN conjunct2, THEN conjunct1]
    by (simp add: t2 API_URL_def)
  have u5: "filter is_request (emitted dune_form
      (handleDelete (IdNum 7) Cancel (Resolved ()) (Resolved []) dune_form)) = []"
    using delete_asks_first [of dune_form "IdNum 7" Delete "Resolved ()" "Resolved []",
        THEN conjunct2, THEN conjunct1] .
  show ?thesis
    using u1 u2 u3 u4 u5 by (intro conjI)
qed

subsection \<open>Editing and resetting the form (C8)\<close>

text \<open>
  C8. For every book and every prior state, \<open>startEdit\<close> followed by \<open>resetForm\<close>
  leaves the form empty: title, author, year and description are empty strings and
  \<open>editingId\<close> is null.
\<close>

theorem resetForm_after_startEdit:
  "title (resetForm (startEdit b s)) = [] \<and>
   author (resetForm (startEdit b s)) = [] \<and>
   year (resetForm (startEdit b s)) = [] \<and>
   description (resetForm (startEdit b s)) = [] \<and>
   editingId (resetForm (startEdit b s)) = None"
  by (simp add: resetForm_def startEdit_def)

subsection \<open>A failed submit (C9)\<close>

text \<open>
  C9. For every form state that passes validation, when the PUT or POST is rejected,
  the four form fields, \<open>editingId\<close> and the cached list are as before, no GET is
  sent, and the only alert is the error alert naming the attempted action.
\<close>

theorem submit_failure_keeps_form:
  assumes "trim (title s) \<noteq> []" and "trim (author s) \<noteq> []"
  shows "title (handleSubmit (Rejected e) fres s) = title s \<and>
         author (handleSubmit (Rejected e) fres s) = author s \<and>
         year (handleSubmit (Rejected e) fres s) = year s \<and>
         description (handleSubmit (Rejected e) fres s) = description s \<and>
         editingId (handleSubmit (Rejected e) fres s) = editingId s \<and>
         books (handleSubmit (Rejected e) fres s) = books s \<and>
         sent GET (emitted s (handleSubmit (Rejected e) fres s)) = [] \<and>
         filter is_alert (emitted s (handleSubmit (Rejected e) fres s)) =
           [Alert ''Error''
              (''Failed to '' @ (if truthy_id (editingId s) then ''update'' else ''add'')
                 @ '' book. Check your network and API.'')]"
  using assms by (simp add: handler_defs effect_defs)

theorem submit_failure_keeps_form_witness:
  "trim (title dune_form) \<noteq> [] \<and> trim (author dune_form) \<noteq> [] \<and>
   title (handleSubmit (Rejected ''timeout'') (Resolved []) dune_form) = ''Dune'' \<and>
   year (handleSubmit (Rejected ''timeout'') (Resolved []) dune_form) = ''1965'' \<and>
   editingId (handleSubmit (Rejected ''timeout'') (Resolved []) dune_form) = None \<and>
   sent GET (emitted dune_form (handleSubmit (Rejected ''timeout'') (Resolved []) dune_form)) = [] \<and>
   filter is_alert (emitted dune_form (handleSubmit (Rejected ''timeout'') (Resolved []) dune_form)) =
     [Alert ''Error'' ''Failed to add book. Check your network and API.'']"
proof -
  have f: "title dune_form = ''Dune''" "year dune_form = ''1965''" "editingId dune_form = None"
    by (simp_all add: dune_form_def)
  show ?thesis
    using trim_dune trim_herbert f
      submit_failure_keeps_form [OF trim_dune trim_herbert, of "''timeout''" "Resolved []"]
    by simp
qed

subsection \<open>The loading flag (C10)\<close>



end
